theory Spec2Isabelle
  imports Main "HOL-Library.Multiset"
begin

section \<open>Data model\<close>

text \<open>
  An ObjectId is represented by its canonical hexadecimal rendering
  (what \<^verbatim>\<open>toString()\<close> and string interpolation produce). Identifiers that
  arrive in a request (\<^verbatim>\<open>req.params.id\<close>, \<^verbatim>\<open>req.params.jobId\<close>,
  \<^verbatim>\<open>req.body.jobId\<close>) are arbitrary strings; Mongoose casts them to ObjectId
  and throws a CastError when the string is not a well-formed id. The cast is library
  code, so every operation takes it as the parameter \<open>cast\<close>; \<open>None\<close> is the
  CastError.
\<close>

type_synonym oid = string

text \<open>
  What a handler's \<^verbatim>\<open>try\<close> block can throw: Mongoose's CastError (the only one
  whose \<^verbatim>\<open>kind\<close> is \<^verbatim>\<open>'ObjectId'\<close>), a schema ValidationError, MongoDB's
  duplicate-key error of a unique index, and the TypeError of a property read on
  \<^verbatim>\<open>undefined\<close>.
\<close>

datatype exn = CastError | ValidationError | DuplicateKeyError | TypeError

fun exn_kind :: "exn \<Rightarrow> string option" where
  "exn_kind CastError = Some ''ObjectId''"
| "exn_kind ValidationError = None"
| "exn_kind DuplicateKeyError = None"
| "exn_kind TypeError = None"

text \<open>JobSchema (models/job.js).\<close>

record job_doc =
  job_id :: oid
  title :: string
  company :: string
  location :: string
  description :: string
  requirements :: "string list"
  salary :: "string option"
  employmentType :: string
  employer :: oid
  isActive :: bool
  applicationDeadline :: "int option"
  job_createdAt :: int

text \<open>ApplicationSchema (models/application.js); dates are milliseconds.\<close>

record application_doc =
  app_id :: oid
  job :: oid
  candidate :: oid
  resume :: string
  coverLetter :: "string option"
  status :: string
  createdAt :: int

text \<open>
  Modelled from the spec: the User schema (models/user.js is not among the sources).
  Section 3 of the specification gives its fields.
\<close>

record user_doc =
  u_id :: oid
  name :: string
  email :: string
  passwordHash :: string
  u_role :: string
  u_company :: "string option"

text \<open>
  \<^verbatim>\<open>req.user\<close> as the handlers read it, once \<^verbatim>\<open>authenticateJWT\<close> has
  accepted the token: \<^verbatim>\<open>req.user.id\<close> and \<^verbatim>\<open>req.user.role\<close>. The id is the
  rendering of the user's ObjectId, so it casts to itself.
\<close>

record req_user =
  user_id :: oid
  role :: string

text \<open>
  A notification: the room it was sent to, the event name and the payload object
  (field name, value).
\<close>

type_synonym event = "string \<times> string \<times> (string \<times> string) list"

text \<open>
  The state the handlers act on: the three collections and the notifications handed
  to socket.io so far.
\<close>

record state =
  jobs :: "job_doc list"
  applications :: "application_doc list"
  users :: "user_doc list"
  emitted :: "event list"

text \<open>
  What a handler sends: \<^verbatim>\<open>res.json(v)\<close>, or
  \<^verbatim>\<open>res.status(n).json({ error: true, message: m })\<close>.
\<close>

datatype 'a response = Json 'a | Fail nat string

text \<open>
  The error kinds of section 7 of the specification and the reading of an HTTP
  response as one of them, after the table of section 6: 404 is NotFound, 401 and 403
  are Unauthorized (ownership and role checks), the 400 of the duplicate application
  is Conflict, every other 400 is BadRequest, and 500 is Internal.
\<close>

datatype error_kind = NotFound | Conflict | Unauthorized | BadRequest | Internal

fun kindOf :: "'a response \<Rightarrow> error_kind option" where
  "kindOf (Json v) = None"
| "kindOf (Fail st msg) =
     Some (if st = 404 then NotFound
           else if st = 401 \<or> st = 403 then Unauthorized
           else if st = 400 then
             (if msg = ''You have already applied for this job'' then Conflict else BadRequest)
           else Internal)"

section \<open>The Express application and socket.io\<close>

text \<open>
  The handlers reach socket.io through \<^verbatim>\<open>req.app.get('io')\<close>, the application
  setting named \<^verbatim>\<open>io\<close>. A setting that was never stored reads as
  \<^verbatim>\<open>undefined\<close>, and \<^verbatim>\<open>undefined.to(...)\<close> throws a TypeError.
\<close>

datatype socket_io = SocketIO

record express_app =
  settings :: "(string \<times> socket_io) list"

definition app_get :: "express_app \<Rightarrow> string \<Rightarrow> socket_io option" where
  "app_get app setting = map_of (settings app) setting"

text \<open>
  server.js: \<^verbatim>\<open>const app = express()\<close>, then \<^verbatim>\<open>socketSetup(io)\<close>, which
  stores the instance on itself (\<^verbatim>\<open>io.app = io\<close> in socket/socket.js) and
  registers the connection handlers. Neither file calls \<^verbatim>\<open>app.set\<close>, so the
  application the routes run under has no setting \<^verbatim>\<open>io\<close>.
\<close>

definition server_app :: express_app where
  "server_app = \<lparr>settings = []\<rparr>"

text \<open>
  \<^verbatim>\<open>req.app.get('io').to(room).emit(name, payload)\<close>: the notification is handed
  to socket.io (appended to \<open>emitted\<close>), or the TypeError is thrown.
\<close>

definition io_emit ::
  "express_app \<Rightarrow> state \<Rightarrow> string \<Rightarrow> string \<Rightarrow> (string \<times> string) list \<Rightarrow> exn + state" where
  "io_emit app s room ev payload =
     (case app_get app ''io'' of
        None \<Rightarrow> Inl TypeError
      | Some io \<Rightarrow> Inr (s\<lparr>emitted := emitted s @ [(room, ev, payload)]\<rparr>))"

section \<open>Middleware (middleware/auth.js)\<close>

text \<open>
  Each returns \<open>None\<close> for \<^verbatim>\<open>next()\<close> and the 403 response otherwise. The
  requests modelled are those \<^verbatim>\<open>authenticateJWT\<close> accepted (\<^verbatim>\<open>req.user\<close> is
  set) and the rate limiter admitted.
\<close>

definition authorizeEmployer :: "req_user \<Rightarrow> 'a response option" where
  "authorizeEmployer u =
     (if role u = ''employer'' then None
      else Some (Fail 403 ''Access denied. Employers only.''))"

definition authorizeCandidate :: "req_user \<Rightarrow> 'a response option" where
  "authorizeCandidate u =
     (if role u = ''candidate'' then None
      else Some (Fail 403 ''Access denied. Candidates only.''))"

definition authorizeAdmin :: "req_user \<Rightarrow> 'a response option" where
  "authorizeAdmin u =
     (if role u = ''admin'' then None
      else Some (Fail 403 ''Access denied. Admins only.''))"

section \<open>The collections\<close>

definition Job_findById :: "state \<Rightarrow> oid \<Rightarrow> job_doc option" where
  "Job_findById s i = find (\<lambda>j. job_id j = i) (jobs s)"

text \<open>\<^verbatim>\<open>Job.findOne({ _id: jobId, isActive: true })\<close>\<close>

definition Job_findOne_active :: "state \<Rightarrow> oid \<Rightarrow> job_doc option" where
  "Job_findOne_active s i = find (\<lambda>j. job_id j = i \<and> isActive j) (jobs s)"

definition Application_findById :: "state \<Rightarrow> oid \<Rightarrow> application_doc option" where
  "Application_findById s i = find (\<lambda>a. app_id a = i) (applications s)"

text \<open>\<^verbatim>\<open>Application.findOne({ job: jobId, candidate: req.user.id })\<close>\<close>

definition Application_findOne :: "state \<Rightarrow> oid \<Rightarrow> oid \<Rightarrow> application_doc option" where
  "Application_findOne s j c = find (\<lambda>a. job a = j \<and> candidate a = c) (applications s)"

definition User_findById :: "state \<Rightarrow> oid \<Rightarrow> user_doc option" where
  "User_findById s i = find (\<lambda>w. u_id w = i) (users s)"

text \<open>
  The enum of the \<open>status\<close> path, which is also the list the PUT handler checks
  the request against.
\<close>

definition status_enum :: "string list" where
  "status_enum = [''pending'', ''reviewing'', ''rejected'', ''accepted'']"

text \<open>
  Schema validation, run by every \<^verbatim>\<open>save()\<close>: \<open>resume\<close> is required (for a
  string path, absent and empty both fail) and \<open>status\<close> is one of the enum.
  \<open>job\<close> and \<open>candidate\<close> are present in every document built here.
\<close>

definition Application_validate :: "application_doc \<Rightarrow> bool" where
  "Application_validate a = (resume a \<noteq> [] \<and> status a \<in> set status_enum)"

text \<open>
  The insert of a new document. MongoDB refuses it on a duplicate \<^verbatim>\<open>_id\<close> and,
  by \<^verbatim>\<open>ApplicationSchema.index({ job: 1, candidate: 1 }, { unique: true })\<close>, on a
  second document with the same job and candidate.
\<close>

definition Application_insert :: "state \<Rightarrow> application_doc \<Rightarrow> exn + state" where
  "Application_insert s a =
     (if list_ex (\<lambda>b. app_id b = app_id a) (applications s)
         \<or> list_ex (\<lambda>b. job b = job a \<and> candidate b = candidate a) (applications s)
      then Inl DuplicateKeyError
      else Inr (s\<lparr>applications := applications s @ [a]\<rparr>))"

text \<open>
  \<^verbatim>\<open>new Application({ job, candidate, resume, coverLetter }).save()\<close>: the
  defaults (\<open>status\<close> pending, \<open>createdAt\<close> now) and a fresh \<^verbatim>\<open>_id\<close> are
  filled in, the document is validated and inserted. The id generator and the clock
  are the environment's: \<open>newId\<close> and \<open>now\<close>. A \<open>resume\<close> missing from the
  request body is \<open>None\<close>.
\<close>

definition Application_save_new ::
  "state \<Rightarrow> oid \<Rightarrow> int \<Rightarrow> oid \<Rightarrow> oid \<Rightarrow> string option \<Rightarrow> string option
     \<Rightarrow> exn + (application_doc \<times> state)" where
  "Application_save_new s newId now j c resume' coverLetter' =
     (case resume' of
        None \<Rightarrow> Inl ValidationError
      | Some r \<Rightarrow>
          (let a = \<lparr>app_id = newId, job = j, candidate = c, resume = r,
                    coverLetter = coverLetter', status = ''pending'', createdAt = now\<rparr>
           in if \<not> Application_validate a then Inl ValidationError
              else (case Application_insert s a of
                      Inl err \<Rightarrow> Inl err
                    | Inr s' \<Rightarrow> Inr (a, s'))))"

text \<open>
  \<^verbatim>\<open>application.status = status; await application.save()\<close> on a document read
  from the collection: it is validated, and the modified path is written to the stored
  document with that \<^verbatim>\<open>_id\<close>.
\<close>

definition Application_save :: "state \<Rightarrow> application_doc \<Rightarrow> exn + state" where
  "Application_save s a =
     (if \<not> Application_validate a then Inl ValidationError
      else Inr (s\<lparr>applications :=
                  map (\<lambda>b. if app_id b = app_id a then b\<lparr>status := status a\<rparr> else b)
                      (applications s)\<rparr>))"

text \<open>
  \<^verbatim>\<open>.populate('candidate', 'name email')\<close> and
  \<^verbatim>\<open>.populate('job', 'title company location')\<close>: the referenced document's
  \<^verbatim>\<open>_id\<close> and the selected fields, or \<^verbatim>\<open>null\<close> when the reference dangles.
\<close>

record candidate_projection =
  cand_id :: oid
  cand_name :: string
  cand_email :: string

record job_projection =
  proj_id :: oid
  proj_title :: string
  proj_company :: string
  proj_location :: string

definition populate_candidate ::
  "state \<Rightarrow> application_doc \<Rightarrow> application_doc \<times> candidate_projection option" where
  "populate_candidate s a =
     (a, map_option (\<lambda>w. \<lparr>cand_id = u_id w, cand_name = name w, cand_email = email w\<rparr>)
           (User_findById s (candidate a)))"

definition populate_job ::
  "state \<Rightarrow> application_doc \<Rightarrow> application_doc \<times> job_projection option" where
  "populate_job s a =
     (a, map_option (\<lambda>j. \<lparr>proj_id = job_id j, proj_title = title j,
                           proj_company = company j, proj_location = location j\<rparr>)
           (Job_findById s (job a)))"

text \<open>
  \<^verbatim>\<open>.sort({ createdAt: -1 })\<close>: newest first. MongoDB leaves the order of equal
  keys open; the model keeps them in collection order.
\<close>

definition sort_newest_first :: "application_doc list \<Rightarrow> application_doc list" where
  "sort_newest_first as = sort_key (\<lambda>a. - createdAt a) as"

section \<open>The handlers (routes/applications.js)\<close>

text \<open>
  Each handler is its \<^verbatim>\<open>try\<close> block, which returns a response or throws, followed
  by its \<^verbatim>\<open>catch\<close>. The state is returned with the outcome: what was saved
  before an exception stays saved.
\<close>

definition catch_500 :: "(exn + 'a response) \<times> state \<Rightarrow> 'a response \<times> state" where
  "catch_500 r =
     (case r of
        (Inl err, s) \<Rightarrow> (Fail 500 ''Server error'', s)
      | (Inr resp, s) \<Rightarrow> (resp, s))"

definition catch_ObjectId ::
  "string \<Rightarrow> (exn + 'a response) \<times> state \<Rightarrow> 'a response \<times> state" where
  "catch_ObjectId notFound r =
     (case r of
        (Inl err, s) \<Rightarrow>
          (if exn_kind err = Some ''ObjectId'' then (Fail 404 notFound, s)
           else (Fail 500 ''Server error'', s))
      | (Inr resp, s) \<Rightarrow> (resp, s))"

text \<open>
  POST /api/applications. The same \<^verbatim>\<open>jobId\<close> string is cast by each of the
  three Mongoose calls; the first cast decides, so it is written once.
\<close>

definition create_try ::
  "express_app \<Rightarrow> (string \<Rightarrow> oid option) \<Rightarrow> oid \<Rightarrow> int \<Rightarrow> state \<Rightarrow> req_user
     \<Rightarrow> string \<Rightarrow> string option \<Rightarrow> string option
     \<Rightarrow> (exn + application_doc response) \<times> state" where
  "create_try app cast newId now s u jobId resume' coverLetter' =
     (case cast jobId of
        None \<Rightarrow> (Inl CastError, s)
      | Some j \<Rightarrow>
        (case Job_findOne_active s j of
           None \<Rightarrow> (Inr (Fail 404 ''Job not found or no longer active''), s)
         | Some jb \<Rightarrow>
           (case Application_findOne s j (user_id u) of
              Some existingApplication \<Rightarrow>
                (Inr (Fail 400 ''You have already applied for this job''), s)
            | None \<Rightarrow>
              (case Application_save_new s newId now j (user_id u) resume' coverLetter' of
                 Inl err \<Rightarrow> (Inl err, s)
               | Inr (application, s') \<Rightarrow>
                 (case io_emit app s' (''employer-'' @ employer jb) ''newApplication''
                         [(''jobId'', job_id jb), (''jobTitle'', title jb),
                          (''applicationId'', app_id application)] of
                    Inl err \<Rightarrow> (Inl err, s')
                  | Inr s'' \<Rightarrow> (Inr (Json application), s''))))))"

definition create ::
  "express_app \<Rightarrow> (string \<Rightarrow> oid option) \<Rightarrow> oid \<Rightarrow> int \<Rightarrow> state \<Rightarrow> req_user
     \<Rightarrow> string \<Rightarrow> string option \<Rightarrow> string option
     \<Rightarrow> application_doc response \<times> state" where
  "create app cast newId now s u jobId resume' coverLetter' =
     (case authorizeCandidate u of
        Some refusal \<Rightarrow> (refusal, s)
      | None \<Rightarrow> catch_500 (create_try app cast newId now s u jobId resume' coverLetter'))"

text \<open>GET /api/applications/candidate\<close>

definition listByCandidate ::
  "state \<Rightarrow> req_user \<Rightarrow> (application_doc \<times> job_projection option) list response \<times> state" where
  "listByCandidate s u =
     (case authorizeCandidate u of
        Some refusal \<Rightarrow> (refusal, s)
      | None \<Rightarrow>
          catch_500
            (Inr (Json (map (populate_job s)
                          (sort_newest_first
                             (filter (\<lambda>a. candidate a = user_id u) (applications s))))), s))"

text \<open>GET /api/applications/job/:jobId\<close>

definition listByJob_try ::
  "(string \<Rightarrow> oid option) \<Rightarrow> state \<Rightarrow> req_user \<Rightarrow> string
     \<Rightarrow> (exn + (application_doc \<times> candidate_projection option) list response) \<times> state" where
  "listByJob_try cast s u jobId =
     (case cast jobId of
        None \<Rightarrow> (Inl CastError, s)
      | Some j \<Rightarrow>
        (case Job_findById s j of
           None \<Rightarrow> (Inr (Fail 404 ''Job not found''), s)
         | Some jb \<Rightarrow>
           if employer jb \<noteq> user_id u then (Inr (Fail 401 ''Not authorized''), s)
           else (Inr (Json (map (populate_candidate s)
                              (sort_newest_first
                                 (filter (\<lambda>a. job a = j) (applications s))))), s)))"

definition listByJob ::
  "(string \<Rightarrow> oid option) \<Rightarrow> state \<Rightarrow> req_user \<Rightarrow> string
     \<Rightarrow> (application_doc \<times> candidate_projection option) list response \<times> state" where
  "listByJob cast s u jobId = catch_ObjectId ''Job not found'' (listByJob_try cast s u jobId)"

text \<open>
  PUT /api/applications/:id. A \<open>status\<close> that is missing from the body or is not a
  string is, like any other string, not one of the four.
\<close>

definition updateStatus_try ::
  "express_app \<Rightarrow> (string \<Rightarrow> oid option) \<Rightarrow> state \<Rightarrow> req_user \<Rightarrow> string \<Rightarrow> string
     \<Rightarrow> (exn + application_doc response) \<times> state" where
  "updateStatus_try app cast s u idParam status' =
     (if status' \<notin> set status_enum then (Inr (Fail 400 ''Invalid status''), s)
      else
        (case cast idParam of
           None \<Rightarrow> (Inl CastError, s)
         | Some i \<Rightarrow>
           (case Application_findById s i of
              None \<Rightarrow> (Inr (Fail 404 ''Application not found''), s)
            | Some application \<Rightarrow>
              (case Job_findById s (job application) of
                 None \<Rightarrow> (Inr (Fail 401 ''Not authorized''), s)
               | Some jb \<Rightarrow>
                 if employer jb \<noteq> user_id u then (Inr (Fail 401 ''Not authorized''), s)
                 else
                   (case Application_save s (application\<lparr>status := status'\<rparr>) of
                      Inl err \<Rightarrow> (Inl err, s)
                    | Inr s' \<Rightarrow>
                      (case io_emit app s' (''user-'' @ candidate application)
                              ''applicationStatusUpdated''
                              [(''applicationId'', app_id application),
                               (''jobTitle'', title jb), (''newStatus'', status')] of
                         Inl err \<Rightarrow> (Inl err, s')
                       | Inr s'' \<Rightarrow>
                           (Inr (Json (application\<lparr>status := status'\<rparr>)), s'')))))))"

definition updateStatus ::
  "express_app \<Rightarrow> (string \<Rightarrow> oid option) \<Rightarrow> state \<Rightarrow> req_user \<Rightarrow> string \<Rightarrow> string
     \<Rightarrow> application_doc response \<times> state" where
  "updateStatus app cast s u idParam status' =
     (case authorizeEmployer u of
        Some refusal \<Rightarrow> (refusal, s)
      | None \<Rightarrow>
          catch_ObjectId ''Application not found''
            (updateStatus_try app cast s u idParam status'))"

section \<open>The uniqueness invariant\<close>

definition unique_pairs :: "state \<Rightarrow> bool" where
  "unique_pairs s = distinct (map (\<lambda>a. (job a, candidate a)) (applications s))"

section \<open>A concrete server state\<close>

text \<open>
  A cast for the examples: the 24-digit lower-case hexadecimal form, which the driver
  accepts and renders unchanged.
\<close>

definition hexObjectId :: "string \<Rightarrow> oid option" where
  "hexObjectId t =
     (if length t = 24 \<and> list_all (\<lambda>c. c \<in> set ''0123456789abcdef'') t then Some t
      else None)"

definition employerE :: oid where "employerE = ''64b7f0a1c2d3e4f5a6b7c8e1''"
definition employerF :: oid where "employerF = ''64b7f0a1c2d3e4f5a6b7c8e2''"
definition candidateC :: oid where "candidateC = ''64b7f0a1c2d3e4f5a6b7c8c1''"
definition candidateD :: oid where "candidateD = ''64b7f0a1c2d3e4f5a6b7c8c2''"
definition adminX :: oid where "adminX = ''64b7f0a1c2d3e4f5a6b7c8a1''"
definition jobJ_id :: oid where "jobJ_id = ''64b7f0a1c2d3e4f5a6b7c801''"
definition jobK_id :: oid where "jobK_id = ''64b7f0a1c2d3e4f5a6b7c802''"
definition appA_id :: oid where "appA_id = ''64b7f0a1c2d3e4f5a6b7c8f1''"
definition appB_id :: oid where "appB_id = ''64b7f0a1c2d3e4f5a6b7c8f2''"

definition jobJ :: job_doc where
  "jobJ = \<lparr>job_id = jobJ_id, title = ''Engineer'', company = ''Acme'', location = ''Pune'',
           description = ''Backend work'', requirements = [''Node''], salary = None,
           employmentType = ''full-time'', employer = employerE, isActive = True,
           applicationDeadline = None, job_createdAt = 1000\<rparr>"

definition jobK :: job_doc where
  "jobK = \<lparr>job_id = jobK_id, title = ''Designer'', company = ''Acme'', location = ''Pune'',
           description = ''Design work'', requirements = [''Figma''], salary = None,
           employmentType = ''contract'', employer = employerE, isActive = False,
           applicationDeadline = None, job_createdAt = 1100\<rparr>"

definition userC :: user_doc where
  "userC = \<lparr>u_id = candidateC, name = ''Chitra'', email = ''c@example.org'',
            passwordHash = ''h1'', u_role = ''candidate'', u_company = None\<rparr>"

definition userD :: user_doc where
  "userD = \<lparr>u_id = candidateD, name = ''Dev'', email = ''d@example.org'',
            passwordHash = ''h2'', u_role = ''candidate'', u_company = None\<rparr>"

definition reqC :: req_user where "reqC = \<lparr>user_id = candidateC, role = ''candidate''\<rparr>"
definition reqD :: req_user where "reqD = \<lparr>user_id = candidateD, role = ''candidate''\<rparr>"
definition reqE :: req_user where "reqE = \<lparr>user_id = employerE, role = ''employer''\<rparr>"
definition reqF :: req_user where "reqF = \<lparr>user_id = employerF, role = ''employer''\<rparr>"
definition reqX :: req_user where "reqX = \<lparr>user_id = adminX, role = ''admin''\<rparr>"

definition appA :: application_doc where
  "appA = \<lparr>app_id = appA_id, job = jobJ_id, candidate = candidateC, resume = ''cv-c.pdf'',
           coverLetter = Some ''Hello'', status = ''pending'', createdAt = 2000\<rparr>"

definition appB :: application_doc where
  "appB = \<lparr>app_id = appB_id, job = jobJ_id, candidate = candidateD, resume = ''cv-d.pdf'',
           coverLetter = None, status = ''reviewing'', createdAt = 3000\<rparr>"

text \<open>No application yet; one application; two applications on the same job.\<close>

definition state0 :: state where
  "state0 = \<lparr>jobs = [jobJ, jobK], applications = [], users = [userC, userD], emitted = []\<rparr>"

definition state1 :: state where
  "state1 = state0\<lparr>applications := [appA]\<rparr>"

definition state2 :: state where
  "state2 = state0\<lparr>applications := [appA, appB]\<rparr>"

section \<open>Evaluation rules\<close>

lemmas example_defs =
  hexObjectId_def server_app_def app_get_def
  employerE_def employerF_def candidateC_def candidateD_def adminX_def
  jobJ_id_def jobK_id_def appA_id_def appB_id_def jobJ_def jobK_def userC_def userD_def
  reqC_def reqD_def reqE_def reqF_def reqX_def appA_def appB_def
  state0_def state1_def state2_def

lemmas handler_defs =
  create_def create_try_def listByCandidate_def listByJob_def listByJob_try_def
  updateStatus_def updateStatus_try_def catch_500_def catch_ObjectId_def
  authorizeCandidate_def authorizeEmployer_def io_emit_def
  Job_findById_def Job_findOne_active_def Application_findById_def Application_findOne_def
  User_findById_def Application_save_new_def Application_save_def Application_insert_def
  Application_validate_def status_enum_def populate_candidate_def populate_job_def
  sort_newest_first_def Let_def

section \<open>What each step leaves unchanged\<close>

lemma applications_io_emit:
  "io_emit app s room ev payload = Inr s' \<Longrightarrow> applications s' = applications s"
  by (auto simp: io_emit_def split: option.splits)

lemma io_emit_registered:
  "app_get app ''io'' = Some io \<Longrightarrow>
   io_emit app s room ev payload = Inr (s\<lparr>emitted := emitted s @ [(room, ev, payload)]\<rparr>)"
  by (simp add: io_emit_def)

lemma io_emit_unregistered:
  "app_get app ''io'' = None \<Longrightarrow> io_emit app s room ev payload = Inl TypeError"
  by (simp add: io_emit_def)

lemma io_emit_cases:
  "io_emit app s room ev payload = Inl TypeError
   \<or> io_emit app s room ev payload = Inr (s\<lparr>emitted := emitted s @ [(room, ev, payload)]\<rparr>)"
  by (simp add: io_emit_def split: option.splits)

lemma Application_insert_emitted:
  "Application_insert s a = Inr s' \<Longrightarrow> emitted s' = emitted s"
  by (auto simp: Application_insert_def split: if_splits)

lemma Application_save_emitted:
  "Application_save s a = Inr s' \<Longrightarrow> emitted s' = emitted s"
  by (auto simp: Application_save_def split: if_splits)

lemma find_None_list_ex: "find P xs = None \<longleftrightarrow> \<not> list_ex P xs"
  by (induction xs) auto

section \<open>The storage layer and the invariant\<close>

lemma unique_pairs_Application_insert:
  "unique_pairs s \<Longrightarrow> Application_insert s a = Inr s' \<Longrightarrow> unique_pairs s'"
  unfolding unique_pairs_def Application_insert_def list_ex_iff
  by (fastforce split: if_splits)

lemma Application_insert_duplicate:
  "list_ex (\<lambda>b. job b = job a \<and> candidate b = candidate a) (applications s)
     \<Longrightarrow> Application_insert s a = Inl DuplicateKeyError"
  by (simp add: Application_insert_def)

lemma pairs_status_update:
  "map (\<lambda>a. (job a, candidate a))
       (map (\<lambda>b. if app_id b = i then b\<lparr>status := st\<rparr> else b) xs)
   = map (\<lambda>a. (job a, candidate a)) xs"
  by (induction xs) auto

lemma unique_pairs_Application_save:
  assumes "unique_pairs s" and "Application_save s a = Inr s'"
  shows "unique_pairs s'"
proof -
  from assms(2) have "applications s' =
      map (\<lambda>b. if app_id b = app_id a then b\<lparr>status := status a\<rparr> else b) (applications s)"
    by (auto simp: Application_save_def split: if_splits)
  with assms(1) show ?thesis
    unfolding unique_pairs_def by (simp only: pairs_status_update)
qed

lemma unique_pairs_applications:
  "applications s' = applications s \<Longrightarrow> unique_pairs s \<Longrightarrow> unique_pairs s'"
  by (simp add: unique_pairs_def)

lemma applications_create:
  "applications (snd (create app cast newId now s u jobId r c)) = applications s
   \<or> (\<exists>a s'. Application_insert s a = Inr s'
        \<and> applications (snd (create app cast newId now s u jobId r c)) = applications s')"
  unfolding create_def create_try_def catch_500_def Application_save_new_def Let_def
  by (auto split: option.splits sum.splits prod.splits if_splits dest: applications_io_emit)

lemma applications_updateStatus:
  "applications (snd (updateStatus app cast s u idParam st)) = applications s
   \<or> (\<exists>a s'. Application_save s a = Inr s'
        \<and> applications (snd (updateStatus app cast s u idParam st)) = applications s')"
  unfolding updateStatus_def updateStatus_try_def catch_ObjectId_def
  by (auto split: option.splits sum.splits prod.splits if_splits dest: applications_io_emit)

lemma unique_pairs_create:
  assumes "unique_pairs s"
  shows "unique_pairs (snd (create app cast newId now s u jobId r c))"
  using applications_create [of app cast newId now s u jobId r c] assms
  by (auto intro: unique_pairs_applications unique_pairs_Application_insert)

lemma unique_pairs_updateStatus:
  assumes "unique_pairs s"
  shows "unique_pairs (snd (updateStatus app cast s u idParam st))"
  using applications_updateStatus [of app cast s u idParam st] assms
  by (auto intro: unique_pairs_applications unique_pairs_Application_save)

lemma listByJob_state: "snd (listByJob cast s u jobId) = s"
  unfolding listByJob_def listByJob_try_def catch_ObjectId_def
  by (auto split: option.splits)

lemma listByCandidate_state: "snd (listByCandidate s u) = s"
  unfolding listByCandidate_def catch_500_def
  by (auto split: option.splits)

text \<open>
  C3: every operation preserves ``at most one application per (job, candidate)'',
  and the insert itself enforces it: whatever the handler checked beforehand, the
  collection refuses a second document for a pair that is already there, and an
  insert it accepts keeps the pairs distinct.
\<close>

theorem unique_pairs_invariant:
  assumes "unique_pairs s"
  shows "unique_pairs (snd (create app cast newId now s u jobId r c))
       \<and> unique_pairs (snd (listByCandidate s u))
       \<and> unique_pairs (snd (listByJob cast s u jobId))
       \<and> unique_pairs (snd (updateStatus app cast s u idParam st))
       \<and> (\<forall>a. list_ex (\<lambda>b. job b = job a \<and> candidate b = candidate a) (applications s)
               \<longrightarrow> Application_insert s a = Inl DuplicateKeyError)
       \<and> (\<forall>a s'. Application_insert s a = Inr s' \<longrightarrow> unique_pairs s')"
proof -
  have "unique_pairs (snd (create app cast newId now s u jobId r c))"
    by (rule unique_pairs_create [OF assms])
  moreover have "unique_pairs (snd (listByCandidate s u))"
    using assms by (simp only: listByCandidate_state)
  moreover have "unique_pairs (snd (listByJob cast s u jobId))"
    using assms by (simp only: listByJob_state)
  moreover have "unique_pairs (snd (updateStatus app cast s u idParam st))"
    by (rule unique_pairs_updateStatus [OF assms])
  moreover have "\<forall>a. list_ex (\<lambda>b. job b = job a \<and> candidate b = candidate a) (applications s)
               \<longrightarrow> Application_insert s a = Inl DuplicateKeyError"
    by (simp add: Application_insert_duplicate)
  moreover have "\<forall>a s'. Application_insert s a = Inr s' \<longrightarrow> unique_pairs s'"
    using assms by (blast intro: unique_pairs_Application_insert)
  ultimately show ?thesis by blast
qed

theorem unique_pairs_invariant_witness:
  "unique_pairs state1
   \<and> unique_pairs (snd (create server_app hexObjectId appB_id 3000 state1 reqD jobJ_id
                          (Some ''cv-d.pdf'') None))
   \<and> applications (snd (create server_app hexObjectId appB_id 3000 state1 reqD jobJ_id
                          (Some ''cv-d.pdf'') None)) = [appA, appB\<lparr>status := ''pending''\<rparr>]
   \<and> unique_pairs (snd (updateStatus server_app hexObjectId state1 reqE appA_id ''accepted''))
   \<and> list_ex (\<lambda>b. job b = job (appB\<lparr>candidate := candidateC\<rparr>)
                  \<and> candidate b = candidate (appB\<lparr>candidate := candidateC\<rparr>))
        (applications state1)
   \<and> Application_insert state1 (appB\<lparr>candidate := candidateC\<rparr>) = Inl DuplicateKeyError"
proof -
  have u: "unique_pairs state1"
    by (simp add: unique_pairs_def example_defs)
  have d: "list_ex (\<lambda>b. job b = job (appB\<lparr>candidate := candidateC\<rparr>)
                  \<and> candidate b = candidate (appB\<lparr>candidate := candidateC\<rparr>))
        (applications state1)"
    by (simp add: example_defs)
  have a: "applications (snd (create server_app hexObjectId appB_id 3000 state1 reqD jobJ_id
                          (Some ''cv-d.pdf'') None)) = [appA, appB\<lparr>status := ''pending''\<rparr>]"
    by (simp add: handler_defs example_defs)
  note create_inv = unique_pairs_invariant [OF u, where app = server_app and cast = hexObjectId
      and newId = appB_id and now = 3000 and u = reqD and jobId = jobJ_id
      and r = "Some ''cv-d.pdf''" and c = None]
  note update_inv = unique_pairs_invariant [OF u, where app = server_app and cast = hexObjectId
      and u = reqE and idParam = appA_id and st = "''accepted''"]
  from create_inv d
  have "Application_insert state1 (appB\<lparr>candidate := candidateC\<rparr>) = Inl DuplicateKeyError"
    by blast
  with create_inv update_inv u d a show ?thesis by blast
qed

section \<open>POST /api/applications\<close>

lemma create_refused:
  "role u \<noteq> ''candidate'' \<Longrightarrow>
   create app cast newId now s u jobId r c = (Fail 403 ''Access denied. Candidates only.'', s)"
  by (simp add: create_def authorizeCandidate_def)

lemma create_cast_error:
  "role u = ''candidate'' \<Longrightarrow> cast jobId = None \<Longrightarrow>
   create app cast newId now s u jobId r c = (Fail 500 ''Server error'', s)"
  by (simp add: create_def create_try_def authorizeCandidate_def catch_500_def)

lemma create_not_found:
  "role u = ''candidate'' \<Longrightarrow> cast jobId = Some j \<Longrightarrow> Job_findOne_active s j = None \<Longrightarrow>
   create app cast newId now s u jobId r c = (Fail 404 ''Job not found or no longer active'', s)"
  by (simp add: create_def create_try_def authorizeCandidate_def catch_500_def)

lemma create_conflict:
  "role u = ''candidate'' \<Longrightarrow> cast jobId = Some j \<Longrightarrow> Job_findOne_active s j = Some jb \<Longrightarrow>
   Application_findOne s j (user_id u) = Some e \<Longrightarrow>
   create app cast newId now s u jobId r c = (Fail 400 ''You have already applied for this job'', s)"
  by (simp add: create_def create_try_def authorizeCandidate_def catch_500_def)

lemma Application_save_new_ok:
  assumes "Application_findOne s j c = None"
    and "\<not> list_ex (\<lambda>b. app_id b = newId) (applications s)"
    and "r \<noteq> []"
  shows "Application_save_new s newId now j c (Some r) cl =
     Inr (\<lparr>app_id = newId, job = j, candidate = c, resume = r, coverLetter = cl,
            status = ''pending'', createdAt = now\<rparr>,
          s\<lparr>applications := applications s @
              [\<lparr>app_id = newId, job = j, candidate = c, resume = r, coverLetter = cl,
                status = ''pending'', createdAt = now\<rparr>]\<rparr>)"
proof -
  from assms(1) have "\<not> list_ex (\<lambda>b. job b = j \<and> candidate b = c) (applications s)"
    by (simp add: Application_findOne_def find_None_list_ex)
  with assms(2,3) show ?thesis
    by (simp add: Application_save_new_def Application_insert_def Application_validate_def
        status_enum_def Let_def)
qed

text \<open>
  The handler as written, under an application that has the socket.io instance
  registered: the record is stored, the employer is notified, the record is returned.
\<close>

lemma create_registered_io:
  assumes "role u = ''candidate''" and "cast jobId = Some j"
    and "Job_findOne_active s j = Some jb"
    and "Application_findOne s j (user_id u) = None"
    and "\<not> list_ex (\<lambda>b. app_id b = newId) (applications s)"
    and "r \<noteq> []"
    and "app_get app ''io'' = Some io"
  shows "create app cast newId now s u jobId (Some r) cl =
     (Json \<lparr>app_id = newId, job = j, candidate = user_id u, resume = r, coverLetter = cl,
            status = ''pending'', createdAt = now\<rparr>,
      s\<lparr>applications := applications s @
            [\<lparr>app_id = newId, job = j, candidate = user_id u, resume = r, coverLetter = cl,
              status = ''pending'', createdAt = now\<rparr>],
        emitted := emitted s @
            [(''employer-'' @ employer jb, ''newApplication'',
              [(''jobId'', job_id jb), (''jobTitle'', title jb), (''applicationId'', newId)])]\<rparr>)"
  using assms(1-4,7)
  by (simp add: create_def create_try_def authorizeCandidate_def catch_500_def
      Application_save_new_ok [OF assms(4,5,6)] io_emit_def)

text \<open>
  The same request when the setting \<^verbatim>\<open>io\<close> was never stored: the record is
  saved, then the emit throws, and the caller is told 500.
\<close>

lemma create_unregistered_io:
  assumes "role u = ''candidate''" and "cast jobId = Some j"
    and "Job_findOne_active s j = Some jb"
    and "Application_findOne s j (user_id u) = None"
    and "\<not> list_ex (\<lambda>b. app_id b = newId) (applications s)"
    and "r \<noteq> []"
    and "app_get app ''io'' = None"
  shows "create app cast newId now s u jobId (Some r) cl =
     (Fail 500 ''Server error'',
      s\<lparr>applications := applications s @
            [\<lparr>app_id = newId, job = j, candidate = user_id u, resume = r, coverLetter = cl,
              status = ''pending'', createdAt = now\<rparr>]\<rparr>)"
  using assms(1-4,7)
  by (simp add: create_def create_try_def authorizeCandidate_def catch_500_def
      Application_save_new_ok [OF assms(4,5,6)] io_emit_def)

lemma find_append_new:
  "find P xs = None \<Longrightarrow> P a \<Longrightarrow> find P (xs @ [a]) = Some a"
  by (induction xs) (auto split: if_splits)

lemma filter_append_new:
  "find P xs = None \<Longrightarrow> P a \<Longrightarrow> filter P (xs @ [a]) = [a]"
  by (induction xs) (auto split: if_splits)

text \<open>
  Two calls for the same pair, under an application with the instance registered:
  the first returns the new record, the second is refused as a duplicate whatever it
  supplies, and the collection holds exactly one record for the pair.
\<close>

lemma create_twice_registered_io:
  assumes "role u = ''candidate''" and "cast jobId = Some j"
    and "Job_findOne_active s j = Some jb"
    and "Application_findOne s j (user_id u) = None"
    and "\<not> list_ex (\<lambda>b. app_id b = newId) (applications s)"
    and "r \<noteq> []"
    and "app_get app ''io'' = Some io"
    and "create app cast newId now s u jobId (Some r) cl = (r1, s1)"
    and "create app cast newId' now' s1 u jobId r' cl' = (r2, s2)"
  shows "(\<exists>a. r1 = Json a)
       \<and> r2 = Fail 400 ''You have already applied for this job''
       \<and> kindOf r2 = Some Conflict
       \<and> s2 = s1
       \<and> length (filter (\<lambda>a. job a = j \<and> candidate a = user_id u) (applications s2)) = 1"
proof -
  let ?a = "\<lparr>app_id = newId, job = j, candidate = user_id u, resume = r, coverLetter = cl,
              status = ''pending'', createdAt = now\<rparr>"
  from create_registered_io [where cast = cast and jobId = jobId and app = app and now = now
      and cl = cl, OF assms(1-7)] assms(8)
  have r1: "r1 = Json ?a" and apps: "applications s1 = applications s @ [?a]"
    and jobs1: "jobs s1 = jobs s"
    by auto
  from assms(4) have none: "find (\<lambda>a. job a = j \<and> candidate a = user_id u) (applications s) = None"
    by (simp add: Application_findOne_def)
  have found: "Application_findOne s1 j (user_id u) = Some ?a"
    unfolding Application_findOne_def apps
    by (rule find_append_new [OF none]) simp
  have active: "Job_findOne_active s1 j = Some jb"
    using assms(3) jobs1 by (simp add: Job_findOne_active_def)
  from create_conflict [where cast = cast and jobId = jobId and app = app and newId = newId'
      and now = now' and r = r' and c = cl', OF assms(1,2) active found] assms(9)
  have r2: "r2 = Fail 400 ''You have already applied for this job''" and s2: "s2 = s1"
    by auto
  have "filter (\<lambda>a. job a = j \<and> candidate a = user_id u) (applications s1) = [?a]"
    unfolding apps by (rule filter_append_new [OF none]) simp
  with r1 r2 s2 show ?thesis by simp
qed

lemma Job_findOne_active_Some:
  "Job_findOne_active s j = Some jb \<Longrightarrow> job_id jb = j \<and> isActive jb \<and> jb \<in> set (jobs s)"
  by (auto simp: Job_findOne_active_def find_Some_iff)

lemma Job_findById_Some:
  "Job_findById s j = Some jb \<Longrightarrow> job_id jb = j \<and> jb \<in> set (jobs s)"
  by (auto simp: Job_findById_def find_Some_iff)

lemma Application_findById_Some:
  "Application_findById s i = Some a \<Longrightarrow> app_id a = i \<and> a \<in> set (applications s)"
  by (auto simp: Application_findById_def find_Some_iff)

text \<open>What a successful response of the handler implies, read off its branches.\<close>

lemma create_Json:
  assumes "create app cast newId now s u jobId r cl = (Json a, s')"
  shows "\<exists>j jb io t. role u = ''candidate'' \<and> cast jobId = Some j
        \<and> Job_findOne_active s j = Some jb
        \<and> Application_findOne s j (user_id u) = None
        \<and> app_get app ''io'' = Some io
        \<and> r = Some t
        \<and> a = \<lparr>app_id = newId, job = j, candidate = user_id u, resume = t,
                coverLetter = cl, status = ''pending'', createdAt = now\<rparr>
        \<and> s' = s\<lparr>applications := applications s @ [a],
                 emitted := emitted s @
                   [(''employer-'' @ employer jb, ''newApplication'',
                     [(''jobId'', job_id jb), (''jobTitle'', title jb),
                      (''applicationId'', newId)])]\<rparr>"
  using assms
  unfolding create_def create_try_def catch_500_def authorizeCandidate_def
    Application_save_new_def Application_insert_def io_emit_def Let_def
  by (auto split: option.splits sum.splits prod.splits if_splits)

lemma create_Fail_emitted:
  assumes "create app cast newId now s u jobId r cl = (Fail st m, s')"
  shows "emitted s' = emitted s"
  using assms
  unfolding create_def create_try_def catch_500_def authorizeCandidate_def
    Application_save_new_def Application_insert_def io_emit_def Let_def
  by (auto split: option.splits sum.splits prod.splits if_splits)

section \<open>PUT /api/applications/:id\<close>

lemma updateStatus_refused:
  "role u \<noteq> ''employer'' \<Longrightarrow>
   updateStatus app cast s u idParam st = (Fail 403 ''Access denied. Employers only.'', s)"
  by (simp add: updateStatus_def authorizeEmployer_def)

lemma updateStatus_invalid_status:
  "role u = ''employer'' \<Longrightarrow> st \<notin> set status_enum \<Longrightarrow>
   updateStatus app cast s u idParam st = (Fail 400 ''Invalid status'', s)"
  by (simp add: updateStatus_def updateStatus_try_def authorizeEmployer_def catch_ObjectId_def)

lemma updateStatus_cast_error:
  "role u = ''employer'' \<Longrightarrow> st \<in> set status_enum \<Longrightarrow> cast idParam = None \<Longrightarrow>
   updateStatus app cast s u idParam st = (Fail 404 ''Application not found'', s)"
  by (simp add: updateStatus_def updateStatus_try_def authorizeEmployer_def catch_ObjectId_def)

lemma updateStatus_no_application:
  "role u = ''employer'' \<Longrightarrow> st \<in> set status_enum \<Longrightarrow> cast idParam = Some i \<Longrightarrow>
   Application_findById s i = None \<Longrightarrow>
   updateStatus app cast s u idParam st = (Fail 404 ''Application not found'', s)"
  by (simp add: updateStatus_def updateStatus_try_def authorizeEmployer_def catch_ObjectId_def)

lemma updateStatus_not_owner:
  "role u = ''employer'' \<Longrightarrow> st \<in> set status_enum \<Longrightarrow> cast idParam = Some i \<Longrightarrow>
   Application_findById s i = Some a \<Longrightarrow> Job_findById s (job a) = Some jb \<Longrightarrow>
   employer jb \<noteq> user_id u \<Longrightarrow>
   updateStatus app cast s u idParam st = (Fail 401 ''Not authorized'', s)"
  by (simp add: updateStatus_def updateStatus_try_def authorizeEmployer_def catch_ObjectId_def)

lemma Application_save_ok:
  "resume a \<noteq> [] \<Longrightarrow> st \<in> set status_enum \<Longrightarrow>
   Application_save s (a\<lparr>status := st\<rparr>) =
     Inr (s\<lparr>applications :=
            map (\<lambda>b. if app_id b = app_id a then b\<lparr>status := st\<rparr> else b) (applications s)\<rparr>)"
  by (simp add: Application_save_def Application_validate_def)

text \<open>
  The handler as written, under an application that has the socket.io instance
  registered: any of the four values is stored, whatever the current one, the
  candidate is notified and the updated record is returned.
\<close>

lemma updateStatus_registered_io:
  assumes "role u = ''employer''" and "st \<in> set status_enum" and "cast idParam = Some i"
    and "Application_findById s i = Some a" and "Job_findById s (job a) = Some jb"
    and "employer jb = user_id u" and "resume a \<noteq> []"
    and "app_get app ''io'' = Some io"
  shows "updateStatus app cast s u idParam st =
     (Json (a\<lparr>status := st\<rparr>),
      s\<lparr>applications :=
          map (\<lambda>b. if app_id b = app_id a then b\<lparr>status := st\<rparr> else b) (applications s),
        emitted := emitted s @
          [(''user-'' @ candidate a, ''applicationStatusUpdated'',
            [(''applicationId'', app_id a), (''jobTitle'', title jb), (''newStatus'', st)])]\<rparr>)"
  using assms
  by (simp add: updateStatus_def updateStatus_try_def authorizeEmployer_def catch_ObjectId_def
      Application_save_ok io_emit_def)

text \<open>
  The same request when the setting \<^verbatim>\<open>io\<close> was never stored: the status is
  saved, then the emit throws, and the caller is told 500.
\<close>

lemma updateStatus_unregistered_io:
  assumes "role u = ''employer''" and "st \<in> set status_enum" and "cast idParam = Some i"
    and "Application_findById s i = Some a" and "Job_findById s (job a) = Some jb"
    and "employer jb = user_id u" and "resume a \<noteq> []"
    and "app_get app ''io'' = None"
  shows "updateStatus app cast s u idParam st =
     (Fail 500 ''Server error'',
      s\<lparr>applications :=
          map (\<lambda>b. if app_id b = app_id a then b\<lparr>status := st\<rparr> else b) (applications s)\<rparr>)"
  using assms
  by (simp add: updateStatus_def updateStatus_try_def authorizeEmployer_def catch_ObjectId_def
      Application_save_ok io_emit_def)

lemma find_status_update:
  "find (\<lambda>b. app_id b = i) xs = Some a \<Longrightarrow>
   find (\<lambda>b. app_id b = i) (map (\<lambda>b. if app_id b = i then b\<lparr>status := st\<rparr> else b) xs)
     = Some (a\<lparr>status := st\<rparr>)"
  by (induction xs) (auto split: if_splits)

lemma updateStatus_Json:
  assumes "updateStatus app cast s u idParam st = (Json b, s')"
  shows "\<exists>i a jb io. role u = ''employer'' \<and> st \<in> set status_enum \<and> cast idParam = Some i
        \<and> Application_findById s i = Some a \<and> Job_findById s (job a) = Some jb
        \<and> employer jb = user_id u \<and> app_get app ''io'' = Some io
        \<and> b = a\<lparr>status := st\<rparr>
        \<and> s' = s\<lparr>applications :=
                   map (\<lambda>c. if app_id c = app_id a then c\<lparr>status := st\<rparr> else c)
                     (applications s),
                 emitted := emitted s @
                   [(''user-'' @ candidate a, ''applicationStatusUpdated'',
                     [(''applicationId'', app_id a), (''jobTitle'', title jb),
                      (''newStatus'', st)])]\<rparr>"
  using assms
  unfolding updateStatus_def updateStatus_try_def catch_ObjectId_def authorizeEmployer_def
    Application_save_def io_emit_def
  by (auto split: option.splits sum.splits prod.splits if_splits)

lemma updateStatus_Fail_emitted:
  assumes "updateStatus app cast s u idParam st = (Fail n m, s')"
  shows "emitted s' = emitted s"
  using assms
  unfolding updateStatus_def updateStatus_try_def catch_ObjectId_def authorizeEmployer_def
    Application_save_def io_emit_def
  by (auto split: option.splits sum.splits prod.splits if_splits)

section \<open>Claims about updating a status\<close>

text \<open>
  C1, as stated, fails: an administrator who does not own the job is refused. The
  route admits employers only, and the handler compares the requester with the job's
  employer without an exemption.
\<close>

theorem updateStatus_admin_refused:
  "role reqX = ''admin''
   \<and> ''reviewing'' \<in> set status_enum
   \<and> hexObjectId appA_id = Some appA_id
   \<and> Application_findById state1 appA_id = Some appA
   \<and> Job_findById state1 (job appA) = Some jobJ
   \<and> user_id reqX \<noteq> employer jobJ
   \<and> updateStatus server_app hexObjectId state1 reqX appA_id ''reviewing''
       = (Fail 403 ''Access denied. Employers only.'', state1)
   \<and> kindOf (fst (updateStatus server_app hexObjectId state1 reqX appA_id ''reviewing''))
       = Some Unauthorized"
  by (simp add: handler_defs example_defs)

text \<open>
  C1, amended: when the application and its job exist and the new status is one of
  the four values, the call fails with Unauthorized exactly when the requester's role
  is not employer or the requester's id differs from the job's employer id. A
  requester who is not an employer, an administrator included, gets the 403 of the
  route's middleware.
\<close>

theorem updateStatus_unauthorized_iff:
  assumes "st \<in> set status_enum" and "cast idParam = Some i"
    and "Application_findById s i = Some a" and "Job_findById s (job a) = Some jb"
  shows "(kindOf (fst (updateStatus app cast s u idParam st)) = Some Unauthorized
            \<longleftrightarrow> (role u \<noteq> ''employer'' \<or> user_id u \<noteq> employer jb))
       \<and> (role u \<noteq> ''employer'' \<longrightarrow>
            updateStatus app cast s u idParam st
              = (Fail 403 ''Access denied. Employers only.'', s))"
proof (cases "role u = ''employer''")
  case False
  then show ?thesis by (simp add: updateStatus_refused)
next
  case employer: True
  show ?thesis
  proof (cases "employer jb = user_id u")
    case False
    with employer assms show ?thesis
      by (simp add: updateStatus_not_owner [where cast = cast and i = i and a = a and jb = jb])
  next
    case True
    with employer assms
    have "kindOf (fst (updateStatus app cast s u idParam st)) \<noteq> Some Unauthorized"
      unfolding updateStatus_def updateStatus_try_def catch_ObjectId_def authorizeEmployer_def
        Application_save_def io_emit_def
      by (auto split: option.splits sum.splits)
    with employer True show ?thesis by simp
  qed
qed

theorem updateStatus_unauthorized_iff_witness:
  "''accepted'' \<in> set status_enum
   \<and> hexObjectId appA_id = Some appA_id
   \<and> Application_findById state1 appA_id = Some appA
   \<and> Job_findById state1 (job appA) = Some jobJ
   \<and> role reqX \<noteq> ''employer''
   \<and> kindOf (fst (updateStatus server_app hexObjectId state1 reqX appA_id ''accepted''))
       = Some Unauthorized
   \<and> role reqF = ''employer'' \<and> user_id reqF \<noteq> employer jobJ
   \<and> kindOf (fst (updateStatus server_app hexObjectId state1 reqF appA_id ''accepted''))
       = Some Unauthorized
   \<and> role reqE = ''employer'' \<and> user_id reqE = employer jobJ
   \<and> kindOf (fst (updateStatus server_app hexObjectId state1 reqE appA_id ''accepted''))
       \<noteq> Some Unauthorized"
proof -
  have h: "''accepted'' \<in> set status_enum" "hexObjectId appA_id = Some appA_id"
    "Application_findById state1 appA_id = Some appA"
    "Job_findById state1 (job appA) = Some jobJ"
    by (simp_all add: handler_defs example_defs)
  have r: "role reqX \<noteq> ''employer''" "role reqF = ''employer''"
    "user_id reqF \<noteq> employer jobJ" "role reqE = ''employer''" "user_id reqE = employer jobJ"
    by (simp_all add: example_defs)
  note iff = updateStatus_unauthorized_iff [where cast = hexObjectId and app = server_app, OF h]
  from iff [of reqX] iff [of reqF] iff [of reqE] h r show ?thesis
    by simp
qed

text \<open>
  C5, as stated, fails: the handler validates the new status before it looks the
  application up, so a call that names no existing application and carries a status
  outside the four values is answered with 400, not 404.
\<close>

theorem updateStatus_absent_invalid_status:
  "role reqE = ''employer''
   \<and> hexObjectId appB_id = Some appB_id
   \<and> Application_findById state1 appB_id = None
   \<and> ''archived'' \<notin> set status_enum
   \<and> updateStatus server_app hexObjectId state1 reqE appB_id ''archived''
       = (Fail 400 ''Invalid status'', state1)
   \<and> kindOf (fst (updateStatus server_app hexObjectId state1 reqE appB_id ''archived''))
       = Some BadRequest"
  by (simp add: handler_defs example_defs)

text \<open>
  C5, amended: for a call by an employer that names no existing application (the id
  is malformed, or no application has it), the call fails with NotFound when the new
  status is one of the four values and with BadRequest when it is not; the state is
  unchanged either way.
\<close>

theorem updateStatus_absent_application:
  assumes "role u = ''employer''"
    and "\<not> (\<exists>i a. cast idParam = Some i \<and> a \<in> set (applications s) \<and> app_id a = i)"
  shows "updateStatus app cast s u idParam st
           = (if st \<in> set status_enum then Fail 404 ''Application not found''
              else Fail 400 ''Invalid status'', s)
       \<and> kindOf (fst (updateStatus app cast s u idParam st))
           = Some (if st \<in> set status_enum then NotFound else BadRequest)"
proof (cases "st \<in> set status_enum")
  case False
  with assms(1) show ?thesis by (simp add: updateStatus_invalid_status)
next
  case valid: True
  show ?thesis
  proof (cases "cast idParam")
    case None
    with assms(1) valid show ?thesis by (simp add: updateStatus_cast_error)
  next
    case (Some i)
    with assms(2) have "Application_findById s i = None"
      by (auto simp: Application_findById_def find_None_iff)
    with assms(1) valid Some show ?thesis
      by (simp add: updateStatus_no_application [where cast = cast and i = i])
  qed
qed

theorem updateStatus_absent_application_witness:
  "role reqE = ''employer''
   \<and> \<not> (\<exists>i a. hexObjectId appB_id = Some i \<and> a \<in> set (applications state1) \<and> app_id a = i)
   \<and> updateStatus server_app hexObjectId state1 reqE appB_id ''accepted''
       = (Fail 404 ''Application not found'', state1)
   \<and> kindOf (fst (updateStatus server_app hexObjectId state1 reqE appB_id ''accepted''))
       = Some NotFound
   \<and> kindOf (fst (updateStatus server_app hexObjectId state1 reqE appB_id ''withdrawn''))
       = Some BadRequest"
proof -
  have r: "role reqE = ''employer''" by (simp add: example_defs)
  have n: "\<not> (\<exists>i a. hexObjectId appB_id = Some i \<and> a \<in> set (applications state1)
               \<and> app_id a = i)"
    by (simp add: example_defs)
  have v: "''accepted'' \<in> set status_enum" "''withdrawn'' \<notin> set status_enum"
    by (simp_all add: status_enum_def)
  note absent = updateStatus_absent_application [where cast = hexObjectId and app = server_app,
      OF r n]
  from absent [of "''accepted''"] absent [of "''withdrawn''"] r n v show ?thesis
    by simp
qed

section \<open>Malformed identifiers\<close>

text \<open>
  C10, as stated, fails for updateStatus: with a malformed application id and a status
  outside the four values the answer is 400.
\<close>

theorem updateStatus_malformed_invalid_status:
  "role reqE = ''employer''
   \<and> hexObjectId ''not-an-object-id'' = None
   \<and> ''archived'' \<notin> set status_enum
   \<and> updateStatus server_app hexObjectId state1 reqE ''not-an-object-id'' ''archived''
       = (Fail 400 ''Invalid status'', state1)
   \<and> kindOf (fst (updateStatus server_app hexObjectId state1 reqE ''not-an-object-id''
                    ''archived''))
       = Some BadRequest"
  by (simp add: handler_defs example_defs)

text \<open>
  C10, amended: a malformed job id makes listByJob fail with NotFound. A malformed
  application id makes updateStatus fail with NotFound when the requester is an
  employer and the new status is one of the four values; the role check
  (Unauthorized) and the status check (BadRequest) come before the cast. In every
  case the failure is not Internal and the state is unchanged.
\<close>

theorem malformed_id_outcome:
  assumes "cast raw = None"
  shows "listByJob cast s u raw = (Fail 404 ''Job not found'', s)
       \<and> kindOf (fst (listByJob cast s u raw)) = Some NotFound
       \<and> updateStatus app cast s u raw st
           = (if role u \<noteq> ''employer'' then Fail 403 ''Access denied. Employers only.''
              else if st \<notin> set status_enum then Fail 400 ''Invalid status''
              else Fail 404 ''Application not found'', s)
       \<and> kindOf (fst (updateStatus app cast s u raw st))
           = Some (if role u \<noteq> ''employer'' then Unauthorized
                   else if st \<notin> set status_enum then BadRequest else NotFound)
       \<and> kindOf (fst (updateStatus app cast s u raw st)) \<noteq> Some Internal"
proof -
  from assms have l: "listByJob cast s u raw = (Fail 404 ''Job not found'', s)"
    by (simp add: listByJob_def listByJob_try_def catch_ObjectId_def)
  from assms have p: "updateStatus app cast s u raw st
           = (if role u \<noteq> ''employer'' then Fail 403 ''Access denied. Employers only.''
              else if st \<notin> set status_enum then Fail 400 ''Invalid status''
              else Fail 404 ''Application not found'', s)"
    by (simp add: updateStatus_refused updateStatus_invalid_status updateStatus_cast_error)
  show ?thesis unfolding l p by simp
qed

theorem malformed_id_outcome_witness:
  "hexObjectId ''not-an-object-id'' = None
   \<and> listByJob hexObjectId state1 reqE ''not-an-object-id'' = (Fail 404 ''Job not found'', state1)
   \<and> kindOf (fst (listByJob hexObjectId state1 reqE ''not-an-object-id'')) = Some NotFound
   \<and> updateStatus server_app hexObjectId state1 reqE ''not-an-object-id'' ''accepted''
       = (Fail 404 ''Application not found'', state1)
   \<and> kindOf (fst (updateStatus server_app hexObjectId state1 reqE ''not-an-object-id''
                    ''accepted''))
       = Some NotFound"
proof -
  have c: "hexObjectId ''not-an-object-id'' = None" by (simp add: hexObjectId_def)
  have r: "role reqE = ''employer''" "''accepted'' \<in> set status_enum"
    by (simp_all add: example_defs status_enum_def)
  from malformed_id_outcome [where cast = hexObjectId and app = server_app and s = state1
      and u = reqE and st = "''accepted''", OF c] c r
  show ?thesis by simp
qed

section \<open>GET /api/applications/job/:jobId\<close>

lemma sort_newest_first_sorted:
  "sorted_wrt (\<lambda>a b. createdAt b \<le> createdAt a) (sort_newest_first xs)"
proof -
  have "sorted (map (\<lambda>a. - createdAt a) (sort_newest_first xs))"
    unfolding sort_newest_first_def by (rule sorted_sort_key)
  then show ?thesis
    by (simp add: sorted_wrt_map)
qed

lemma mset_sort_newest_first: "mset (sort_newest_first xs) = mset xs"
  by (simp add: sort_newest_first_def)

lemma fst_populate_candidate: "map fst (map (populate_candidate s) xs) = xs"
  by (induction xs) (simp_all add: populate_candidate_def)

lemma listByJob_no_job:
  assumes "\<not> (\<exists>j jb. cast jobId = Some j \<and> jb \<in> set (jobs s) \<and> job_id jb = j)"
  shows "listByJob cast s u jobId = (Fail 404 ''Job not found'', s)"
proof (cases "cast jobId")
  case None
  then show ?thesis
    by (simp add: listByJob_def listByJob_try_def catch_ObjectId_def)
next
  case (Some j)
  with assms have "Job_findById s j = None"
    by (auto simp: Job_findById_def find_None_iff)
  with Some show ?thesis
    by (simp add: listByJob_def listByJob_try_def catch_ObjectId_def)
qed

lemma listByJob_not_owner:
  "cast jobId = Some j \<Longrightarrow> Job_findById s j = Some jb \<Longrightarrow> employer jb \<noteq> user_id u \<Longrightarrow>
   listByJob cast s u jobId = (Fail 401 ''Not authorized'', s)"
  by (simp add: listByJob_def listByJob_try_def catch_ObjectId_def)

lemma listByJob_owner:
  "cast jobId = Some j \<Longrightarrow> Job_findById s j = Some jb \<Longrightarrow> employer jb = user_id u \<Longrightarrow>
   listByJob cast s u jobId =
     (Json (map (populate_candidate s)
              (sort_newest_first (filter (\<lambda>a. job a = j) (applications s)))), s)"
  by (simp add: listByJob_def listByJob_try_def catch_ObjectId_def)

text \<open>
  C9: listByJob fails with NotFound when no job has the given id, and with
  Unauthorized when the job exists and the requester is not its employer. Otherwise
  it returns exactly the applications whose job is the given one, newest first, each
  paired with the id, name and email of its candidate (nothing when the candidate
  reference dangles). It never changes the state.
\<close>

theorem listByJob_outcome:
  "snd (listByJob cast s u jobId) = s
   \<and> (\<not> (\<exists>j jb. cast jobId = Some j \<and> jb \<in> set (jobs s) \<and> job_id jb = j) \<longrightarrow>
        fst (listByJob cast s u jobId) = Fail 404 ''Job not found''
        \<and> kindOf (fst (listByJob cast s u jobId)) = Some NotFound)
   \<and> (cast jobId = Some j \<and> Job_findById s j = Some jb \<and> employer jb \<noteq> user_id u \<longrightarrow>
        fst (listByJob cast s u jobId) = Fail 401 ''Not authorized''
        \<and> kindOf (fst (listByJob cast s u jobId)) = Some Unauthorized)
   \<and> (cast jobId = Some j \<and> Job_findById s j = Some jb \<and> employer jb = user_id u \<longrightarrow>
        (\<exists>rs. fst (listByJob cast s u jobId) = Json rs
           \<and> mset (map fst rs) = mset (filter (\<lambda>a. job a = j) (applications s))
           \<and> sorted_wrt (\<lambda>a b. createdAt b \<le> createdAt a) (map fst rs)
           \<and> (\<forall>x \<in> set rs.
                 snd x = map_option
                           (\<lambda>w. \<lparr>cand_id = u_id w, cand_name = name w, cand_email = email w\<rparr>)
                           (User_findById s (candidate (fst x))))))"
proof (intro conjI impI)
  show "snd (listByJob cast s u jobId) = s"
    unfolding listByJob_def listByJob_try_def catch_ObjectId_def
    by (auto split: option.splits)
next
  assume n: "\<not> (\<exists>j jb. cast jobId = Some j \<and> jb \<in> set (jobs s) \<and> job_id jb = j)"
  then have e: "listByJob cast s u jobId = (Fail 404 ''Job not found'', s)"
    by (rule listByJob_no_job)
  show "fst (listByJob cast s u jobId) = Fail 404 ''Job not found''"
    by (simp add: e)
  show "kindOf (fst (listByJob cast s u jobId)) = Some NotFound"
    by (simp add: e)
next
  assume h: "cast jobId = Some j \<and> Job_findById s j = Some jb \<and> employer jb \<noteq> user_id u"
  then have e: "listByJob cast s u jobId = (Fail 401 ''Not authorized'', s)"
    by (simp add: listByJob_not_owner [where cast = cast and j = j and jb = jb])
  show "fst (listByJob cast s u jobId) = Fail 401 ''Not authorized''"
    by (simp add: e)
  show "kindOf (fst (listByJob cast s u jobId)) = Some Unauthorized"
    by (simp add: e)
next
  assume h: "cast jobId = Some j \<and> Job_findById s j = Some jb \<and> employer jb = user_id u"
  let ?found = "sort_newest_first (filter (\<lambda>a. job a = j) (applications s))"
  let ?rs = "map (populate_candidate s) ?found"
  from h have e: "listByJob cast s u jobId = (Json ?rs, s)"
    by (simp add: listByJob_owner [where cast = cast and j = j and jb = jb])
  have "mset (map fst ?rs) = mset (filter (\<lambda>a. job a = j) (applications s))"
    by (simp only: fst_populate_candidate mset_sort_newest_first)
  moreover have "sorted_wrt (\<lambda>a b. createdAt b \<le> createdAt a) (map fst ?rs)"
    by (simp only: fst_populate_candidate sort_newest_first_sorted)
  moreover have "\<forall>x \<in> set ?rs.
      snd x = map_option (\<lambda>w. \<lparr>cand_id = u_id w, cand_name = name w, cand_email = email w\<rparr>)
                (User_findById s (candidate (fst x)))"
    by (auto simp: populate_candidate_def)
  ultimately show "\<exists>rs. fst (listByJob cast s u jobId) = Json rs
           \<and> mset (map fst rs) = mset (filter (\<lambda>a. job a = j) (applications s))
           \<and> sorted_wrt (\<lambda>a b. createdAt b \<le> createdAt a) (map fst rs)
           \<and> (\<forall>x \<in> set rs.
                 snd x = map_option
                           (\<lambda>w. \<lparr>cand_id = u_id w, cand_name = name w, cand_email = email w\<rparr>)
                           (User_findById s (candidate (fst x))))"
    using e by (intro exI [of _ ?rs]) simp
qed

theorem listByJob_outcome_witness:
  "\<not> (\<exists>j jb. hexObjectId appA_id = Some j \<and> jb \<in> set (jobs state2) \<and> job_id jb = j)
   \<and> listByJob hexObjectId state2 reqE appA_id = (Fail 404 ''Job not found'', state2)
   \<and> hexObjectId jobJ_id = Some jobJ_id
   \<and> Job_findById state2 jobJ_id = Some jobJ
   \<and> employer jobJ \<noteq> user_id reqF
   \<and> listByJob hexObjectId state2 reqF jobJ_id = (Fail 401 ''Not authorized'', state2)
   \<and> employer jobJ = user_id reqE
   \<and> listByJob hexObjectId state2 reqE jobJ_id =
       (Json [(appB, Some \<lparr>cand_id = candidateD, cand_name = ''Dev'',
                            cand_email = ''d@example.org''\<rparr>),
              (appA, Some \<lparr>cand_id = candidateC, cand_name = ''Chitra'',
                            cand_email = ''c@example.org''\<rparr>)], state2)
   \<and> createdAt appA \<le> createdAt appB"
proof -
  have n: "\<not> (\<exists>j jb. hexObjectId appA_id = Some j \<and> jb \<in> set (jobs state2) \<and> job_id jb = j)"
    by (auto simp: example_defs)
  have h: "hexObjectId jobJ_id = Some jobJ_id" "Job_findById state2 jobJ_id = Some jobJ"
    "employer jobJ \<noteq> user_id reqF" "employer jobJ = user_id reqE"
    by (simp_all add: handler_defs example_defs)
  have r: "listByJob hexObjectId state2 reqE jobJ_id =
       (Json [(appB, Some \<lparr>cand_id = candidateD, cand_name = ''Dev'',
                            cand_email = ''d@example.org''\<rparr>),
              (appA, Some \<lparr>cand_id = candidateC, cand_name = ''Chitra'',
                            cand_email = ''c@example.org''\<rparr>)], state2)"
    by (simp add: handler_defs example_defs)
  have t: "createdAt appA \<le> createdAt appB" by (simp add: example_defs)
  note out = listByJob_outcome [where cast = hexObjectId and s = state2]
  from out [where u = reqE and jobId = appA_id] n
  have "fst (listByJob hexObjectId state2 reqE appA_id) = Fail 404 ''Job not found''"
    "snd (listByJob hexObjectId state2 reqE appA_id) = state2"
    by blast+
  then have a: "listByJob hexObjectId state2 reqE appA_id = (Fail 404 ''Job not found'', state2)"
    by (simp add: prod_eq_iff)
  from out [where u = reqF and jobId = jobJ_id and j = jobJ_id and jb = jobJ] h
  have "fst (listByJob hexObjectId state2 reqF jobJ_id) = Fail 401 ''Not authorized''"
    "snd (listByJob hexObjectId state2 reqF jobJ_id) = state2"
    by blast+
  then have b: "listByJob hexObjectId state2 reqF jobJ_id = (Fail 401 ''Not authorized'', state2)"
    by (simp add: prod_eq_iff)
  from n h r t a b show ?thesis by simp
qed

section \<open>What the handlers do by themselves\<close>

text \<open>
  A well-formed job id with no active job, absent or inactive: 404, nothing stored.
\<close>

lemma create_no_active_job:
  assumes "role u = ''candidate''" and "cast jobId = Some j"
    and "\<not> (\<exists>jb \<in> set (jobs s). job_id jb = j \<and> isActive jb)"
  shows "create app cast newId now s u jobId r c
           = (Fail 404 ''Job not found or no longer active'', s)"
proof -
  from assms(3) have "Job_findOne_active s j = None"
    by (auto simp: Job_findOne_active_def find_None_iff)
  with assms(1,2) show ?thesis
    by (simp add: create_not_found [where cast = cast and j = j])
qed

text \<open>
  For the job's employer and an existing application, the status check is the only
  source of a BadRequest, and a status that passes it is stored whether or not the
  notification can be sent.
\<close>

lemma updateStatus_bad_request_iff:
  assumes "role u = ''employer''" and "cast idParam = Some i"
    and "Application_findById s i = Some a" and "Job_findById s (job a) = Some jb"
    and "employer jb = user_id u"
  shows "kindOf (fst (updateStatus app cast s u idParam st)) = Some BadRequest
           \<longleftrightarrow> st \<notin> set status_enum"
  using assms
  unfolding updateStatus_def updateStatus_try_def catch_ObjectId_def authorizeEmployer_def
    Application_save_def io_emit_def
  by (auto split: option.splits sum.splits)

lemma updateStatus_stores_status:
  assumes "role u = ''employer''" and "st \<in> set status_enum" and "cast idParam = Some i"
    and "Application_findById s i = Some a" and "Job_findById s (job a) = Some jb"
    and "employer jb = user_id u" and "resume a \<noteq> []"
  shows "Application_findById (snd (updateStatus app cast s u idParam st)) i
           = Some (a\<lparr>status := st\<rparr>)"
proof -
  from assms(4) have i: "app_id a = i"
    by (simp add: Application_findById_Some)
  have "applications (snd (updateStatus app cast s u idParam st))
          = map (\<lambda>b. if app_id b = i then b\<lparr>status := st\<rparr> else b) (applications s)"
  proof (cases "app_get app ''io''")
    case None
    from updateStatus_unregistered_io [where cast = cast and app = app, OF assms None] i
    show ?thesis by simp
  next
    case (Some io)
    from updateStatus_registered_io [where cast = cast and app = app, OF assms Some] i
    show ?thesis by simp
  qed
  with assms(4) show ?thesis
    by (simp add: Application_findById_def find_status_update)
qed

section \<open>The server as wired by server.js\<close>

text \<open>
  C2 on the server as given: the candidate applies twice to an active job. The first
  call stores the record and then answers 500, because the emit throws; the second is
  refused as a duplicate. Neither call returns an application.
\<close>

theorem create_twice_server_app:
  "role reqC = ''candidate''
   \<and> Job_findOne_active state0 jobJ_id = Some jobJ
   \<and> Application_findOne state0 jobJ_id (user_id reqC) = None
   \<and> create server_app hexObjectId appA_id 2000 state0 reqC jobJ_id
        (Some ''cv-c.pdf'') (Some ''Hello'')
       = (Fail 500 ''Server error'', state1)
   \<and> create server_app hexObjectId appB_id 2500 state1 reqC jobJ_id
        (Some ''cv-c.pdf'') (Some ''Hello'')
       = (Fail 400 ''You have already applied for this job'', state1)
   \<and> applications state1 = [appA]
   \<and> emitted state1 = []"
  by (simp add: handler_defs example_defs)

text \<open>
  C4 on the server as given: the job's employer moves an application from pending to
  reviewing. The new status is stored, then the emit throws and the answer is 500
  rather than the updated record.
\<close>

theorem updateStatus_server_app:
  "role reqE = ''employer''
   \<and> Application_findById state1 appA_id = Some appA
   \<and> Job_findById state1 (job appA) = Some jobJ
   \<and> employer jobJ = user_id reqE
   \<and> ''reviewing'' \<in> set status_enum
   \<and> updateStatus server_app hexObjectId state1 reqE appA_id ''reviewing''
       = (Fail 500 ''Server error'',
          state1\<lparr>applications := [appA\<lparr>status := ''reviewing''\<rparr>]\<rparr>)
   \<and> kindOf (fst (updateStatus server_app hexObjectId state1 reqE appA_id ''reviewing''))
       = Some Internal"
  by (simp add: handler_defs example_defs)

text \<open>
  C6 at a job id that is not a well-formed object id: no job has it, yet the answer
  is 500, on the server as given and under any other application object. The catch
  block of the POST handler has no case for the cast error; the one of listByJob maps
  the same error to 404.
\<close>

theorem create_malformed_jobId:
  "role reqC = ''candidate''
   \<and> hexObjectId ''not-an-object-id'' = None
   \<and> create server_app hexObjectId appA_id 2000 state0 reqC ''not-an-object-id''
        (Some ''cv-c.pdf'') None
       = (Fail 500 ''Server error'', state0)
   \<and> create app hexObjectId appA_id 2000 state0 reqC ''not-an-object-id''
        (Some ''cv-c.pdf'') None
       = (Fail 500 ''Server error'', state0)
   \<and> kindOf (fst (create server_app hexObjectId appA_id 2000 state0 reqC ''not-an-object-id''
                    (Some ''cv-c.pdf'') None))
       = Some Internal
   \<and> listByJob hexObjectId state0 reqE ''not-an-object-id''
       = (Fail 404 ''Job not found'', state0)"
  by (simp add: handler_defs example_defs)

lemma app_get_server_app: "app_get server_app setting = None"
  by (simp add: app_get_def server_app_def)

lemma create_server_app_not_Json:
  "create server_app cast newId now s u jobId r cl \<noteq> (Json a, s')"
proof
  assume "create server_app cast newId now s u jobId r cl = (Json a, s')"
  from create_Json [OF this] obtain io where "app_get server_app ''io'' = Some io"
    by blast
  then show False by (simp add: app_get_server_app)
qed

lemma updateStatus_server_app_not_Json:
  "updateStatus server_app cast s u idParam st \<noteq> (Json b, s')"
proof
  assume "updateStatus server_app cast s u idParam st = (Json b, s')"
  from updateStatus_Json [OF this] obtain io where "app_get server_app ''io'' = Some io"
    by blast
  then show False by (simp add: app_get_server_app)
qed

text \<open>
  C7 on the server as given: no create call returns a record, whatever the request.
  A candidate's request for an active job, with no application for the pair yet,
  stores the record, with status pending and the job, candidate, resume and cover
  letter of the request, and is answered 500.
\<close>

theorem create_server_app_returns_no_record:
  "create server_app cast newId now s u jobId r cl \<noteq> (Json a, s')
   \<and> role reqD = ''candidate''
   \<and> hexObjectId jobJ_id = Some jobJ_id
   \<and> Job_findOne_active state1 jobJ_id = Some jobJ
   \<and> Application_findOne state1 jobJ_id (user_id reqD) = None
   \<and> create server_app hexObjectId appB_id 3000 state1 reqD jobJ_id (Some ''cv-d.pdf'') None
       = (Fail 500 ''Server error'',
          state1\<lparr>applications :=
            [appA,
             \<lparr>app_id = appB_id, job = jobJ_id, candidate = candidateD, resume = ''cv-d.pdf'',
              coverLetter = None, status = ''pending'', createdAt = 3000\<rparr>]\<rparr>)
   \<and> kindOf (fst (create server_app hexObjectId appB_id 3000 state1 reqD jobJ_id
                    (Some ''cv-d.pdf'') None))
       = Some Internal"
proof -
  have "create server_app cast newId now s u jobId r cl \<noteq> (Json a, s')"
    by (rule create_server_app_not_Json)
  moreover have "role reqD = ''candidate''" "hexObjectId jobJ_id = Some jobJ_id"
    "Job_findOne_active state1 jobJ_id = Some jobJ"
    "Application_findOne state1 jobJ_id (user_id reqD) = None"
    by (simp_all add: handler_defs example_defs)
  moreover have "create server_app hexObjectId appB_id 3000 state1 reqD jobJ_id
        (Some ''cv-d.pdf'') None
       = (Fail 500 ''Server error'',
          state1\<lparr>applications :=
            [appA,
             \<lparr>app_id = appB_id, job = jobJ_id, candidate = candidateD, resume = ''cv-d.pdf'',
              coverLetter = None, status = ''pending'', createdAt = 3000\<rparr>]\<rparr>)"
    by (simp add: handler_defs example_defs)
  ultimately show ?thesis by simp
qed

text \<open>
  C8 on the server as given: no call hands socket.io a notification, whatever the
  request. A create that stores the application and an updateStatus that stores the
  new status are both answered 500 and leave the list of notifications empty.
\<close>

theorem server_app_emits_nothing:
  "emitted (snd (create server_app cast newId now s u jobId r cl)) = emitted s
   \<and> emitted (snd (updateStatus server_app cast s u idParam st)) = emitted s
   \<and> create server_app hexObjectId appB_id 3000 state0 reqD jobJ_id (Some ''cv-d.pdf'') None
       = (Fail 500 ''Server error'',
          state0\<lparr>applications :=
            [\<lparr>app_id = appB_id, job = jobJ_id, candidate = candidateD, resume = ''cv-d.pdf'',
              coverLetter = None, status = ''pending'', createdAt = 3000\<rparr>]\<rparr>)
   \<and> updateStatus server_app hexObjectId state2 reqE appB_id ''accepted''
       = (Fail 500 ''Server error'',
          state2\<lparr>applications := [appA, appB\<lparr>status := ''accepted''\<rparr>]\<rparr>)
   \<and> emitted state0 = []
   \<and> emitted state2 = []"
proof -
  have c: "emitted (snd (create server_app cast newId now s u jobId r cl)) = emitted s"
  proof (cases "create server_app cast newId now s u jobId r cl")
    case (Pair resp s2)
    show ?thesis
    proof (cases resp)
      case (Json a)
      with Pair show ?thesis by (simp add: create_server_app_not_Json)
    next
      case (Fail n m)
      with Pair create_Fail_emitted [of server_app cast newId now s u jobId r cl n m s2]
      show ?thesis by simp
    qed
  qed
  have p: "emitted (snd (updateStatus server_app cast s u idParam st)) = emitted s"
  proof (cases "updateStatus server_app cast s u idParam st")
    case (Pair resp s2)
    show ?thesis
    proof (cases resp)
      case (Json b)
      with Pair show ?thesis by (simp add: updateStatus_server_app_not_Json)
    next
      case (Fail n m)
      with Pair updateStatus_Fail_emitted [of server_app cast s u idParam st n m s2]
      show ?thesis by simp
    qed
  qed
  have e: "create server_app hexObjectId appB_id 3000 state0 reqD jobJ_id
        (Some ''cv-d.pdf'') None
       = (Fail 500 ''Server error'',
          state0\<lparr>applications :=
            [\<lparr>app_id = appB_id, job = jobJ_id, candidate = candidateD, resume = ''cv-d.pdf'',
              coverLetter = None, status = ''pending'', createdAt = 3000\<rparr>]\<rparr>)"
    "updateStatus server_app hexObjectId state2 reqE appB_id ''accepted''
       = (Fail 500 ''Server error'',
          state2\<lparr>applications := [appA, appB\<lparr>status := ''accepted''\<rparr>]\<rparr>)"
    "emitted state0 = []" "emitted state2 = []"
    by (simp_all add: handler_defs example_defs)
  from c p e show ?thesis by simp
qed

end
